theory Spec2Isabelle
  imports Main "HOL-Library.Word"
begin

unbundle bit_operations_syntax

section \<open>Machine types of uefi_avb_ops.c\<close>

text \<open>
  The adapter is built for 64-bit UEFI: \<open>size_t\<close>, \<open>UINTN\<close>, \<open>uint64_t\<close> and
  \<open>EFI_STATUS\<close> are 64 bits wide. An \<open>int64_t\<close> is the same 64 bits read in two's
  complement: \<open>sint\<close> reads it, \<open><s\<close> compares it, and unary minus wraps (the negation of
  the least \<open>int64_t\<close> is that value again, as the machine computes it).
\<close>

type_synonym uint8_t = "8 word"
type_synonym CHAR16 = "16 word"
type_synonym UINT32 = "32 word"
type_synonym uint64_t = "64 word"
type_synonym int64_t = "64 word"
type_synonym size_t = "64 word"
type_synonym EFI_STATUS = "64 word"

text \<open>
  \<open>EFI_ERROR\<close> is the UEFI macro: a status is an error when its high bit is set,
  that is, when it is negative as a signed native integer.
\<close>

definition EFI_ERROR :: "EFI_STATUS \<Rightarrow> bool" where
  "EFI_ERROR a = (a <s 0)"

definition EFI_SUCCESS :: EFI_STATUS where
  "EFI_SUCCESS = 0"

definition EFI_NOT_FOUND :: EFI_STATUS where
  "EFI_NOT_FOUND = 0x800000000000000E"

definition EFI_DEVICE_ERROR :: EFI_STATUS where
  "EFI_DEVICE_ERROR = 0x8000000000000007"

datatype AvbIOResult =
    AVB_IO_RESULT_OK
  | AVB_IO_RESULT_ERROR_OOM
  | AVB_IO_RESULT_ERROR_IO
  | AVB_IO_RESULT_ERROR_NO_SUCH_PARTITION
  | AVB_IO_RESULT_ERROR_RANGE_OUTSIDE_PARTITION

section \<open>The partition handle\<close>

text \<open>
  \<open>struct gpt_partition_interface\<close> as the adapter reads it: the partition entry
  \<open>part\<close> (first and last block, both inclusive, and the 16 raw bytes of the unique
  identifier) and the media of the block device \<open>bio->Media\<close>.
\<close>

record gpt_partition =
  unique :: "uint8_t list"
  starting_lba :: uint64_t
  ending_lba :: uint64_t

record EFI_BLOCK_IO_MEDIA =
  MediaId :: UINT32
  BlockSize :: UINT32

record gpt_partition_interface =
  part :: gpt_partition
  bio_Media :: EFI_BLOCK_IO_MEDIA

section \<open>The collaborators\<close>

text \<open>
  The services the adapter calls are parameters of the model. \<open>'d\<close> is the state of
  the storage device.
  \<^item> \<open>stra_to_str\<close> builds the wide-character label; \<open>None\<close> is the NULL it returns
    when the allocation fails.
  \<^item> \<open>gpt_get_partition_by_label\<close> is the locator on the user logical unit (the
    adapter always passes \<open>LOGICAL_UNIT_USER\<close>), reading the partition table of
    the device: a status and the handle it filled.
  \<^item> \<open>ReadDisk\<close> and \<open>WriteDisk\<close> are the two entry points of the disk I/O
    protocol, called with the media id, the byte offset on the device, the byte count
    and the buffer: a status, what the buffer holds afterwards (for a read), and the
    device afterwards.
\<close>

record 'd platform =
  stra_to_str :: "string \<Rightarrow> CHAR16 list option"
  gpt_get_partition_by_label :: "'d \<Rightarrow> CHAR16 list \<Rightarrow> EFI_STATUS \<times> gpt_partition_interface"
  ReadDisk :: "'d \<Rightarrow> UINT32 \<Rightarrow> uint64_t \<Rightarrow> size_t \<Rightarrow> uint8_t list \<Rightarrow> EFI_STATUS \<times> uint8_t list \<times> 'd"
  WriteDisk :: "'d \<Rightarrow> UINT32 \<Rightarrow> uint64_t \<Rightarrow> size_t \<Rightarrow> uint8_t list \<Rightarrow> EFI_STATUS \<times> 'd"

section \<open>Partition I/O\<close>

text \<open>
  Both I/O functions compute the size of the partition in bytes and the byte offset of
  its first block with the same expressions, in 64-bit unsigned arithmetic.
\<close>

definition partition_size :: "gpt_partition_interface \<Rightarrow> uint64_t" where
  "partition_size gpart =
     (ending_lba (part gpart) - starting_lba (part gpart) + 1) *
     ucast (BlockSize (bio_Media gpart))"

definition partition_start :: "gpt_partition_interface \<Rightarrow> uint64_t" where
  "partition_start gpart =
     starting_lba (part gpart) * ucast (BlockSize (bio_Media gpart))"

text \<open>
  \<open>read_from_partition\<close>. The arguments \<open>buf\<close> and \<open>out_num_read\<close> are what the
  caller's buffer and byte-count cell hold before the call; the result is the returned
  code, the buffer, the byte-count cell and the device after the call. The pointers
  \<open>partition_name\<close>, \<open>buf\<close> and \<open>out_num_read\<close> are asserted non-NULL by the source
  and so are plain values here; the argument \<open>ops\<close> is never read.
\<close>

definition read_from_partition ::
  "'d platform \<Rightarrow> string \<Rightarrow> int64_t \<Rightarrow> size_t \<Rightarrow> uint8_t list \<Rightarrow> size_t \<Rightarrow> 'd \<Rightarrow>
     AvbIOResult \<times> uint8_t list \<times> size_t \<times> 'd" where
  "read_from_partition P partition_name offset_from_partition num_bytes buf out_num_read d =
     (case stra_to_str P partition_name of
        None \<Rightarrow> (AVB_IO_RESULT_ERROR_OOM, buf, out_num_read, d)
      | Some label \<Rightarrow>
          (case gpt_get_partition_by_label P d label of
             (efi_ret, gpart) \<Rightarrow>
               if EFI_ERROR efi_ret
               then (AVB_IO_RESULT_ERROR_NO_SUCH_PARTITION, buf, out_num_read, d)
               else if offset_from_partition <s 0 \<and>
                       partition_size gpart < - offset_from_partition
               then (AVB_IO_RESULT_ERROR_RANGE_OUTSIDE_PARTITION, buf, out_num_read, d)
               else
                 let offset_from_partition =
                       (if offset_from_partition <s 0
                        then partition_size gpart - (- offset_from_partition)
                        else offset_from_partition);
                     out_num_read =
                       (if partition_size gpart - offset_from_partition < num_bytes
                        then partition_size gpart - offset_from_partition
                        else num_bytes)
                 in (case ReadDisk P d (MediaId (bio_Media gpart))
                            (partition_start gpart + offset_from_partition) out_num_read buf of
                       (efi_ret, buf', d') \<Rightarrow>
                         if EFI_ERROR efi_ret
                         then (AVB_IO_RESULT_ERROR_IO, buf', 0, d')
                         else (AVB_IO_RESULT_OK, buf', out_num_read, d'))))"

text \<open>
  \<open>write_to_partition\<close>: the returned code and the device after the call.
\<close>

definition write_to_partition ::
  "'d platform \<Rightarrow> string \<Rightarrow> int64_t \<Rightarrow> size_t \<Rightarrow> uint8_t list \<Rightarrow> 'd \<Rightarrow> AvbIOResult \<times> 'd" where
  "write_to_partition P partition_name offset_from_partition num_bytes buf d =
     (case stra_to_str P partition_name of
        None \<Rightarrow> (AVB_IO_RESULT_ERROR_OOM, d)
      | Some label \<Rightarrow>
          (case gpt_get_partition_by_label P d label of
             (efi_ret, gpart) \<Rightarrow>
               if EFI_ERROR efi_ret
               then (AVB_IO_RESULT_ERROR_NO_SUCH_PARTITION, d)
               else if offset_from_partition <s 0 \<and>
                       partition_size gpart < - offset_from_partition
               then (AVB_IO_RESULT_ERROR_RANGE_OUTSIDE_PARTITION, d)
               else
                 let offset_from_partition =
                       (if offset_from_partition <s 0
                        then partition_size gpart - (- offset_from_partition)
                        else offset_from_partition)
                 in if partition_size gpart - offset_from_partition < num_bytes
                    then (AVB_IO_RESULT_ERROR_RANGE_OUTSIDE_PARTITION, d)
                    else (case WriteDisk P d (MediaId (bio_Media gpart))
                                 (partition_start gpart + offset_from_partition) num_bytes buf of
                            (efi_ret, d') \<Rightarrow>
                              if EFI_ERROR efi_ret
                              then (AVB_IO_RESULT_ERROR_IO, d')
                              else (AVB_IO_RESULT_OK, d'))))"

section \<open>Key validation\<close>

text \<open>
  \<open>memcmp\<close> of the C library on two byte arrays: 0 when the first \<open>n\<close> bytes agree,
  otherwise the difference of the first pair that differs. Reading past the end of
  either array is undefined in C; the model says so with \<open>None\<close>.
\<close>

fun memcmp_loop :: "(uint8_t \<times> uint8_t) list \<Rightarrow> int" where
  "memcmp_loop [] = 0"
| "memcmp_loop ((a, b) # ps) = (if a = b then memcmp_loop ps else uint a - uint b)"

definition memcmp :: "uint8_t list \<Rightarrow> uint8_t list \<Rightarrow> nat \<Rightarrow> int option" where
  "memcmp s1 s2 n =
     (if n \<le> length s1 \<and> n \<le> length s2
      then Some (memcmp_loop (zip (take n s1) (take n s2)))
      else None)"

text \<open>
  The embedded reference key is the byte range between the linker symbols
  \<open>_binary_avb_pk_start\<close> and \<open>_binary_avb_pk_end\<close>; the model takes its bytes
  \<open>avb_pk\<close> as a parameter. \<open>avb_pk_size\<close> is the pointer difference, converted to
  \<open>size_t\<close> by the comparison that uses it.
\<close>

definition avb_pk_size :: "uint8_t list \<Rightarrow> size_t" where
  "avb_pk_size avb_pk = of_nat (length avb_pk)"

text \<open>
  \<open>validate_vbmeta_public_key\<close>. A pointer argument is an \<open>option\<close>: \<open>None\<close> is
  NULL, \<open>Some\<close> holds what it points to (for \<open>out_key_is_trusted\<close>, the value of the
  cell before the call). The result is the returned code and the cell after the call;
  \<open>None\<close> when the comparison reads past the end of the presented key.
\<close>

definition validate_vbmeta_public_key ::
  "uint8_t list \<Rightarrow> uint8_t list option \<Rightarrow> size_t \<Rightarrow> uint8_t list option \<Rightarrow> size_t \<Rightarrow>
     bool option \<Rightarrow> (AvbIOResult \<times> bool option) option" where
  "validate_vbmeta_public_key avb_pk public_key_data public_key_length
       public_key_metadata public_key_metadata_length out_key_is_trusted =
     (let out_key_is_trusted =
            (case out_key_is_trusted of None \<Rightarrow> None | Some _ \<Rightarrow> Some False)
      in case public_key_data of
           None \<Rightarrow> Some (AVB_IO_RESULT_ERROR_IO, out_key_is_trusted)
         | Some key \<Rightarrow>
             if public_key_length = 0
             then Some (AVB_IO_RESULT_ERROR_IO, out_key_is_trusted)
             else if public_key_length \<le> avb_pk_size avb_pk
             then (case memcmp avb_pk key (unat public_key_length) of
                     None \<Rightarrow> None
                   | Some r \<Rightarrow>
                       if r = 0
                       then Some (AVB_IO_RESULT_OK,
                                  case out_key_is_trusted of
                                    None \<Rightarrow> None | Some _ \<Rightarrow> Some True)
                       else Some (AVB_IO_RESULT_OK, out_key_is_trusted))
             else Some (AVB_IO_RESULT_OK, out_key_is_trusted))"

section \<open>Rollback indexes\<close>

text \<open>
  Neither function touches anything but the caller's output cell; \<open>'d\<close> is whatever
  persistent state the platform has, handed back as it was.
\<close>

definition read_rollback_index ::
  "size_t \<Rightarrow> uint64_t option \<Rightarrow> 'd \<Rightarrow> AvbIOResult \<times> uint64_t option \<times> 'd" where
  "read_rollback_index rollback_index_slot out_rollback_index d =
     (AVB_IO_RESULT_OK,
      (case out_rollback_index of None \<Rightarrow> None | Some _ \<Rightarrow> Some 0),
      d)"

definition write_rollback_index :: "size_t \<Rightarrow> uint64_t \<Rightarrow> 'd \<Rightarrow> AvbIOResult \<times> 'd" where
  "write_rollback_index rollback_index_slot rollback_index d = (AVB_IO_RESULT_OK, d)"

text \<open>A history of calls to \<open>write_rollback_index\<close>: the codes returned, and the state.\<close>

fun write_history :: "(size_t \<times> uint64_t) list \<Rightarrow> 'd \<Rightarrow> AvbIOResult list \<times> 'd" where
  "write_history [] d = ([], d)"
| "write_history ((slot, index) # ws) d =
     (case write_rollback_index slot index d of
        (r, d') \<Rightarrow> (case write_history ws d' of (rs, d'') \<Rightarrow> (r # rs, d'')))"

section \<open>The unique identifier of a partition\<close>

definition hex_digits :: "char list" where
  "hex_digits = ''0123456789abcdef'' @ [CHR 0x00]"

text \<open>\<open>set_hex (buf + pos) value\<close> of the source: two characters stored at \<open>pos\<close>.\<close>

definition set_hex :: "char list \<Rightarrow> nat \<Rightarrow> uint8_t \<Rightarrow> char list" where
  "set_hex buf pos v =
     (buf[pos := hex_digits ! unat (drop_bit 4 v)])
        [pos + 1 := hex_digits ! unat (v AND 0x0f)]"

text \<open>
  \<open>get_unique_guid_for_partition\<close>: the returned code and the buffer after the call.
  \<open>guid_buf\<close> is the caller's buffer, \<open>guid_buf_size\<close> the size the caller states for
  it. A store at an index is \<open>guid_buf[i := c]\<close>, which leaves a shorter list as it is,
  where the C store would run over the buffer; the theorems about a successful call
  therefore take a buffer that is as long as its stated size.
\<close>

definition get_unique_guid_for_partition ::
  "'d platform \<Rightarrow> string \<Rightarrow> char list \<Rightarrow> size_t \<Rightarrow> 'd \<Rightarrow> AvbIOResult \<times> char list" where
  "get_unique_guid_for_partition P partition' guid_buf guid_buf_size d =
     (case stra_to_str P partition' of
        None \<Rightarrow> (AVB_IO_RESULT_ERROR_OOM, guid_buf)
      | Some label \<Rightarrow>
          (case gpt_get_partition_by_label P d label of
             (efi_ret, gpart) \<Rightarrow>
               if EFI_ERROR efi_ret then (AVB_IO_RESULT_ERROR_IO, guid_buf)
               else if guid_buf_size < 37 then (AVB_IO_RESULT_ERROR_IO, guid_buf)
               else
                 let unique_guid = unique (part gpart);
                     guid_buf = set_hex guid_buf 0 (unique_guid ! 3);
                     guid_buf = set_hex guid_buf 2 (unique_guid ! 2);
                     guid_buf = set_hex guid_buf 4 (unique_guid ! 1);
                     guid_buf = set_hex guid_buf 6 (unique_guid ! 0);
                     guid_buf = guid_buf[8 := CHR ''-''];
                     guid_buf = set_hex guid_buf 9 (unique_guid ! 5);
                     guid_buf = set_hex guid_buf 11 (unique_guid ! 4);
                     guid_buf = guid_buf[13 := CHR ''-''];
                     guid_buf = set_hex guid_buf 14 (unique_guid ! 7);
                     guid_buf = set_hex guid_buf 16 (unique_guid ! 6);
                     guid_buf = guid_buf[18 := CHR ''-''];
                     guid_buf = set_hex guid_buf 19 (unique_guid ! 8);
                     guid_buf = set_hex guid_buf 21 (unique_guid ! 9);
                     guid_buf = guid_buf[23 := CHR ''-''];
                     guid_buf = set_hex guid_buf 24 (unique_guid ! 10);
                     guid_buf = set_hex guid_buf 26 (unique_guid ! 11);
                     guid_buf = set_hex guid_buf 28 (unique_guid ! 12);
                     guid_buf = set_hex guid_buf 30 (unique_guid ! 13);
                     guid_buf = set_hex guid_buf 32 (unique_guid ! 14);
                     guid_buf = set_hex guid_buf 34 (unique_guid ! 15);
                     guid_buf = guid_buf[36 := CHR 0x00]
                 in (AVB_IO_RESULT_OK, guid_buf)))"

section \<open>The contract, in the words of the specification\<close>

text \<open>
  Offsets and sizes as mathematical integers. A negative offset counts backward from
  the end of the partition; a read that would pass the end is cut to what is left.
\<close>

definition normalized_offset :: "int \<Rightarrow> int \<Rightarrow> int" where
  "normalized_offset psize off = (if off < 0 then psize + off else off)"

definition clamped_length :: "int \<Rightarrow> int \<Rightarrow> int \<Rightarrow> int" where
  "clamped_length psize off len = (if off + len > psize then psize - off else len)"



text \<open>
  The canonical string of a 16-byte identifier: each byte as two lowercase hexadecimal
  digits, high digit first, in five hyphen-separated groups taken from the bytes
  3,2,1,0 then 5,4 then 7,6 then 8,9 then 10 to 15.
\<close>

definition hex_digit :: "nat \<Rightarrow> char" where
  "hex_digit n = (if n < 10 then char_of (48 + n) else char_of (87 + n))"

definition hex_byte :: "uint8_t \<Rightarrow> string" where
  "hex_byte b = [hex_digit (unat b div 16), hex_digit (unat b mod 16)]"

definition hex_group :: "uint8_t list \<Rightarrow> nat list \<Rightarrow> string" where
  "hex_group u is = concat (map (\<lambda>i. hex_byte (u ! i)) is)"

definition canonical_guid_string :: "uint8_t list \<Rightarrow> string" where
  "canonical_guid_string u =
     hex_group u [3, 2, 1, 0] @ ''-'' @ hex_group u [5, 4] @ ''-'' @
     hex_group u [7, 6] @ ''-'' @ hex_group u [8, 9] @ ''-'' @
     hex_group u [10, 11, 12, 13, 14, 15]"

section \<open>A device for concrete runs\<close>

text \<open>
  A device that records every request the disk I/O protocol receives, with one
  partition, \<open>boot\<close>, of four blocks of 512 bytes starting at block 2048: 2048 bytes,
  from byte 1048576 of the device up to byte 1050624. A read fills the buffer with
  zero bytes. The second platform is the same device with a failing read path.
\<close>

datatype disk_call =
    Read_call UINT32 uint64_t size_t
  | Write_call UINT32 uint64_t size_t "uint8_t list"

definition boot_gpart :: gpt_partition_interface where
  "boot_gpart =
     \<lparr>part = \<lparr>unique = [0x33, 0x22, 0x11, 0x00, 0x55, 0x44, 0x77, 0x66,
                         0x88, 0x99, 0xAA, 0xBB, 0xCC, 0xDD, 0xEE, 0xFF],
              starting_lba = 2048, ending_lba = 2051\<rparr>,
      bio_Media = \<lparr>MediaId = 1, BlockSize = 512\<rparr>\<rparr>"

definition no_gpart :: gpt_partition_interface where
  "no_gpart =
     \<lparr>part = \<lparr>unique = [], starting_lba = 0, ending_lba = 0\<rparr>,
      bio_Media = \<lparr>MediaId = 0, BlockSize = 0\<rparr>\<rparr>"

definition wide :: "string \<Rightarrow> CHAR16 list" where
  "wide s = map (\<lambda>c. of_nat (of_char c)) s"

definition recording_platform :: "disk_call list platform" where
  "recording_platform =
     \<lparr>stra_to_str = (\<lambda>s. Some (wide s)),
      gpt_get_partition_by_label =
        (\<lambda>d label. if label = wide ''boot'' then (EFI_SUCCESS, boot_gpart)
                    else (EFI_NOT_FOUND, no_gpart)),
      ReadDisk = (\<lambda>d media off n buf.
                    (EFI_SUCCESS, replicate (unat n) 0, d @ [Read_call media off n])),
      WriteDisk = (\<lambda>d media off n buf.
                     (EFI_SUCCESS, d @ [Write_call media off n (take (unat n) buf)]))\<rparr>"

definition failing_platform :: "disk_call list platform" where
  "failing_platform =
     recording_platform
       \<lparr>ReadDisk := (\<lambda>d media off n buf.
                       (EFI_DEVICE_ERROR, buf, d @ [Read_call media off n]))\<rparr>"



section \<open>Signed and unsigned readings of 64 bits\<close>

lemma sless_zero_iff: "(x :: 64 word) <s 0 \<longleftrightarrow> sint x < 0"
  by (simp add: word_sless_alt)

lemma sint64_bounds:
  fixes x :: "64 word"
  shows "- (2 ^ 63) \<le> sint x" and "sint x < 2 ^ 63"
  using sint_ge [of x] sint_lt [of x] by simp_all

lemma uint_eq_sint_mod: "uint (x :: 64 word) = sint x mod 2 ^ 64"
  by (simp add: uint_sint take_bit_eq_mod)

lemma uint_of_nonneg_sint:
  fixes x :: "64 word"
  assumes "0 \<le> sint x"
  shows "uint x = sint x"
  using assms sint64_bounds [of x] by (simp add: uint_eq_sint_mod)

lemma uint_of_neg_sint:
  fixes x :: "64 word"
  assumes "sint x < 0"
  shows "uint x = sint x + 2 ^ 64"
proof -
  have "sint x mod 2 ^ 64 = (sint x + 2 ^ 64) mod 2 ^ 64"
    by simp
  also have "\<dots> = sint x + 2 ^ 64"
    using assms sint64_bounds [of x] by (intro mod_pos_pos_trivial) simp_all
  finally show ?thesis
    by (simp add: uint_eq_sint_mod)
qed

text \<open>The magnitude of a negative offset, as the comparison with the size reads it.\<close>

lemma uint_minus_of_neg_sint:
  fixes x :: "64 word"
  assumes "sint x < 0"
  shows "uint (- x) = - sint x"
proof -
  have "uint (- x) = (- uint x) mod 2 ^ 64"
    by (simp add: uint_word_ariths)
  also have "\<dots> = (- sint x - 2 ^ 64) mod 2 ^ 64"
    by (simp add: uint_of_neg_sint [OF assms])
  also have "\<dots> = (- sint x) mod 2 ^ 64"
    by (metis mod_diff_right_eq mod_self diff_zero)
  also have "\<dots> = - sint x"
    using assms sint64_bounds [of x] by (intro mod_pos_pos_trivial) simp_all
  finally show ?thesis .
qed

lemma neg_check_iff:
  fixes off sz :: "64 word"
  assumes "sint off < 0"
  shows "sz < - off \<longleftrightarrow> uint sz < - sint off"
  by (simp add: word_less_def uint_minus_of_neg_sint [OF assms])

lemma uint_normalized_negative:
  fixes off sz :: "64 word"
  assumes "sint off < 0" and "\<not> sz < - off"
  shows "uint (sz - (- off)) = uint sz + sint off"
proof -
  have "uint (- off) \<le> uint sz"
    using assms(2) by (simp add: word_less_def)
  then have "uint (sz - (- off)) = uint sz - uint (- off)"
    by (simp add: uint_sub_lem)
  then show ?thesis
    by (simp add: uint_minus_of_neg_sint [OF assms(1)])
qed

text \<open>
  When the offset of the contract is not negative, the negative-offset check lets the
  request pass and the offset the code goes on with is the offset of the contract.
\<close>

lemma effective_offset_word:
  fixes off sz :: "64 word"
  assumes "0 \<le> normalized_offset (uint sz) (sint off)"
  shows "\<not> (off <s 0 \<and> sz < - off)"
    and "uint (if off <s 0 then sz - (- off) else off) = normalized_offset (uint sz) (sint off)"
proof -
  show "\<not> (off <s 0 \<and> sz < - off)"
    using assms by (auto simp: sless_zero_iff neg_check_iff normalized_offset_def)
  then show "uint (if off <s 0 then sz - (- off) else off) =
               normalized_offset (uint sz) (sint off)"
    by (auto simp: sless_zero_iff normalized_offset_def uint_normalized_negative
          uint_of_nonneg_sint simp del: diff_minus_eq_add)
qed

text \<open>The boundary test, for an offset that is inside the partition.\<close>

lemma clamp_word:
  fixes eff sz n :: "64 word"
  assumes "uint eff \<le> uint sz"
  shows "uint (if sz - eff < n then sz - eff else n) =
           clamped_length (uint sz) (uint eff) (uint n)"
    and "sz - eff < n \<longleftrightarrow> uint sz < uint eff + uint n"
proof -
  have sub: "uint (sz - eff) = uint sz - uint eff"
    using assms by (simp add: uint_sub_lem)
  then show "sz - eff < n \<longleftrightarrow> uint sz < uint eff + uint n"
    by (auto simp: word_less_def)
  with sub show "uint (if sz - eff < n then sz - eff else n) =
                   clamped_length (uint sz) (uint eff) (uint n)"
    by (simp add: clamped_length_def)
qed




section \<open>The device for concrete runs, evaluated\<close>

lemma EFI_ERROR_simps:
  "\<not> EFI_ERROR EFI_SUCCESS" "EFI_ERROR EFI_NOT_FOUND" "EFI_ERROR EFI_DEVICE_ERROR"
  by (simp_all add: EFI_ERROR_def EFI_SUCCESS_def EFI_NOT_FOUND_def EFI_DEVICE_ERROR_def
        word_sless_alt)

lemma boot_gpart_simps:
  "partition_size boot_gpart = 2048"
  "partition_start boot_gpart = 1048576"
  "MediaId (bio_Media boot_gpart) = 1"
  by (simp_all add: partition_size_def partition_start_def boot_gpart_def)



lemma recording_simps:
  "stra_to_str recording_platform s = Some (wide s)"
  "gpt_get_partition_by_label recording_platform d (wide ''boot'') = (EFI_SUCCESS, boot_gpart)"
  "gpt_get_partition_by_label recording_platform d (wide ''misc'') = (EFI_NOT_FOUND, no_gpart)"
  "ReadDisk recording_platform d m off n buf =
     (EFI_SUCCESS, replicate (unat n) 0, d @ [Read_call m off n])"
  "WriteDisk recording_platform d m off n buf =
     (EFI_SUCCESS, d @ [Write_call m off n (take (unat n) buf)])"
  by (simp_all add: recording_platform_def wide_def)

lemma failing_simps:
  "stra_to_str failing_platform s = Some (wide s)"
  "gpt_get_partition_by_label failing_platform d (wide ''boot'') = (EFI_SUCCESS, boot_gpart)"
  "ReadDisk failing_platform d m off n buf =
     (EFI_DEVICE_ERROR, buf, d @ [Read_call m off n])"
  by (simp_all add: failing_platform_def recording_platform_def wide_def)

section \<open>Partition I/O: what the two functions do\<close>

text \<open>
  A call whose partition resolves and whose offset passes the negative-offset check
  goes on to the boundary test with the offset \<open>eff\<close>. The read then asks the transport
  for \<open>cnt\<close> bytes; the write is refused or passed on whole.
\<close>

lemma read_from_partition_resolved:
  assumes "stra_to_str P partition_name = Some label"
    and "gpt_get_partition_by_label P d label = (efi_ret, gpart)"
    and "\<not> EFI_ERROR efi_ret"
    and "\<not> (off <s 0 \<and> partition_size gpart < - off)"
    and "eff = (if off <s 0 then partition_size gpart - (- off) else off)"
    and "cnt = (if partition_size gpart - eff < num_bytes
                then partition_size gpart - eff else num_bytes)"
    and "ReadDisk P d (MediaId (bio_Media gpart)) (partition_start gpart + eff) cnt buf =
           (st, buf', d')"
  shows "read_from_partition P partition_name off num_bytes buf out_num_read d =
           (if EFI_ERROR st then (AVB_IO_RESULT_ERROR_IO, buf', 0, d')
            else (AVB_IO_RESULT_OK, buf', cnt, d'))"
  using assms(1-4,7) unfolding assms(6) assms(5) read_from_partition_def Let_def
  by (simp only: option.case prod.case if_False simp_thms)

lemma write_to_partition_resolved:
  assumes "stra_to_str P partition_name = Some label"
    and "gpt_get_partition_by_label P d label = (efi_ret, gpart)"
    and "\<not> EFI_ERROR efi_ret"
    and "\<not> (off <s 0 \<and> partition_size gpart < - off)"
    and "eff = (if off <s 0 then partition_size gpart - (- off) else off)"
    and "WriteDisk P d (MediaId (bio_Media gpart)) (partition_start gpart + eff) num_bytes buf =
           (st, d')"
  shows "write_to_partition P partition_name off num_bytes buf d =
           (if partition_size gpart - eff < num_bytes
            then (AVB_IO_RESULT_ERROR_RANGE_OUTSIDE_PARTITION, d)
            else if EFI_ERROR st then (AVB_IO_RESULT_ERROR_IO, d')
            else (AVB_IO_RESULT_OK, d'))"
  using assms(1-4,6) unfolding assms(5) write_to_partition_def Let_def
  by (simp only: option.case prod.case if_False simp_thms)

text \<open>
  The same, for a request whose offset the contract places inside the partition, in
  the integers of the contract.
\<close>

lemma read_from_partition_in_range:
  assumes "stra_to_str P partition_name = Some label"
    and "gpt_get_partition_by_label P d label = (efi_ret, gpart)"
    and "\<not> EFI_ERROR efi_ret"
    and "e = normalized_offset (uint (partition_size gpart)) (sint off)"
    and "0 \<le> e" and "e \<le> uint (partition_size gpart)"
    and "c = clamped_length (uint (partition_size gpart)) e (uint num_bytes)"
    and "ReadDisk P d (MediaId (bio_Media gpart))
           (partition_start gpart + word_of_int e) (word_of_int c) buf = (st, buf', d')"
  shows "read_from_partition P partition_name off num_bytes buf out_num_read d =
           (if EFI_ERROR st then (AVB_IO_RESULT_ERROR_IO, buf', 0, d')
            else (AVB_IO_RESULT_OK, buf', word_of_int c, d'))"
    and "uint (word_of_int c :: size_t) = c"
proof -
  define eff where "eff = (if off <s 0 then partition_size gpart - (- off) else off)"
  define cnt where "cnt = (if partition_size gpart - eff < num_bytes
                           then partition_size gpart - eff else num_bytes)"
  have pass: "\<not> (off <s 0 \<and> partition_size gpart < - off)"
    and eff: "uint eff = e"
    using effective_offset_word [of "partition_size gpart" off] assms(4,5)
    by (simp_all add: eff_def)
  have cnt: "uint cnt = c"
    using clamp_word(1) [of eff "partition_size gpart" num_bytes] assms(6,7) eff
    by (simp add: cnt_def)
  have words: "word_of_int e = eff" "word_of_int c = cnt"
    using eff cnt by auto
  with assms(8) have rd: "ReadDisk P d (MediaId (bio_Media gpart))
                            (partition_start gpart + eff) cnt buf = (st, buf', d')"
    by simp
  show "read_from_partition P partition_name off num_bytes buf out_num_read d =
           (if EFI_ERROR st then (AVB_IO_RESULT_ERROR_IO, buf', 0, d')
            else (AVB_IO_RESULT_OK, buf', word_of_int c, d'))"
    using read_from_partition_resolved [OF assms(1-3) pass eff_def cnt_def rd] words
    by simp
  show "uint (word_of_int c :: size_t) = c"
    using words cnt by simp
qed

lemma write_to_partition_in_range:
  assumes "stra_to_str P partition_name = Some label"
    and "gpt_get_partition_by_label P d label = (efi_ret, gpart)"
    and "\<not> EFI_ERROR efi_ret"
    and "e = normalized_offset (uint (partition_size gpart)) (sint off)"
    and "0 \<le> e" and "e \<le> uint (partition_size gpart)"
    and "WriteDisk P d (MediaId (bio_Media gpart))
           (partition_start gpart + word_of_int e) num_bytes buf = (st, d')"
  shows "write_to_partition P partition_name off num_bytes buf d =
           (if uint (partition_size gpart) < e + uint num_bytes
            then (AVB_IO_RESULT_ERROR_RANGE_OUTSIDE_PARTITION, d)
            else if EFI_ERROR st then (AVB_IO_RESULT_ERROR_IO, d')
            else (AVB_IO_RESULT_OK, d'))"
proof -
  define eff where "eff = (if off <s 0 then partition_size gpart - (- off) else off)"
  have pass: "\<not> (off <s 0 \<and> partition_size gpart < - off)"
    and eff: "uint eff = e"
    using effective_offset_word [of "partition_size gpart" off] assms(4,5)
    by (simp_all add: eff_def)
  have test: "partition_size gpart - eff < num_bytes \<longleftrightarrow>
                uint (partition_size gpart) < e + uint num_bytes"
    using clamp_word(2) [of eff "partition_size gpart" num_bytes] assms(6) eff by simp
  have "word_of_int e = eff"
    using eff by auto
  with assms(7) have wr: "WriteDisk P d (MediaId (bio_Media gpart))
                            (partition_start gpart + eff) num_bytes buf = (st, d')"
    by simp
  show ?thesis
    using write_to_partition_resolved [OF assms(1-3) pass eff_def wr] test by simp
qed

text \<open>
  A negative offset whose magnitude exceeds the size of the partition is refused by
  both functions, and nothing is touched.
\<close>

lemma negative_offset_out_of_range:
  assumes "stra_to_str P partition_name = Some label"
    and "gpt_get_partition_by_label P d label = (efi_ret, gpart)"
    and "\<not> EFI_ERROR efi_ret"
    and "sint off < 0" and "uint (partition_size gpart) < - sint off"
  shows "read_from_partition P partition_name off num_bytes buf out_num_read d =
           (AVB_IO_RESULT_ERROR_RANGE_OUTSIDE_PARTITION, buf, out_num_read, d)"
    and "write_to_partition P partition_name off num_bytes buf d =
           (AVB_IO_RESULT_ERROR_RANGE_OUTSIDE_PARTITION, d)"
proof -
  have "off <s 0 \<and> partition_size gpart < - off"
    using assms(4,5) by (simp add: sless_zero_iff neg_check_iff)
  then show "read_from_partition P partition_name off num_bytes buf out_num_read d =
           (AVB_IO_RESULT_ERROR_RANGE_OUTSIDE_PARTITION, buf, out_num_read, d)"
    and "write_to_partition P partition_name off num_bytes buf d =
           (AVB_IO_RESULT_ERROR_RANGE_OUTSIDE_PARTITION, d)"
    using assms(1-3) by (simp_all add: read_from_partition_def write_to_partition_def)
qed

text \<open>
  A negative offset \<open>- k\<close> with \<open>k\<close> at most the size is served exactly as the offset
  \<open>size - k\<close> is (when that offset is one an \<open>int64_t\<close> can hold).
\<close>

lemma negative_offset_counts_from_end:
  assumes "stra_to_str P partition_name = Some label"
    and "gpt_get_partition_by_label P d label = (efi_ret, gpart)"
    and "\<not> EFI_ERROR efi_ret"
    and "sint off < 0" and "- sint off \<le> uint (partition_size gpart)"
    and "uint (partition_size gpart) + sint off < 2 ^ 63"
    and "off' = word_of_int (uint (partition_size gpart) + sint off)"
  shows "read_from_partition P partition_name off num_bytes buf out_num_read d =
         read_from_partition P partition_name off' num_bytes buf out_num_read d"
    and "write_to_partition P partition_name off num_bytes buf d =
         write_to_partition P partition_name off' num_bytes buf d"
proof -
  let ?sz = "partition_size gpart"
  define e where "e = uint ?sz + sint off"
  have e_bounds: "0 \<le> e" "e \<le> uint ?sz" "e < 2 ^ 63"
    using assms(4-6) by (simp_all add: e_def)
  have "sint off' = signed_take_bit (LENGTH(64) - 1) e"
    unfolding assms(7) e_def by (rule sint_sbintrunc')
  also have "\<dots> = e"
    using e_bounds by (intro signed_take_bit_int_eq_self) simp_all
  finally have sint': "sint off' = e" .
  have n1: "e = normalized_offset (uint ?sz) (sint off)"
    using assms(4) by (simp add: normalized_offset_def e_def)
  have n2: "e = normalized_offset (uint ?sz) (sint off')"
    using e_bounds(1) by (simp add: normalized_offset_def sint')
  obtain st buf' d' where rd: "ReadDisk P d (MediaId (bio_Media gpart))
      (partition_start gpart + word_of_int e)
      (word_of_int (clamped_length (uint ?sz) e (uint num_bytes))) buf = (st, buf', d')"
    by (metis prod_cases3)
  show "read_from_partition P partition_name off num_bytes buf out_num_read d =
        read_from_partition P partition_name off' num_bytes buf out_num_read d"
    using read_from_partition_in_range(1) [OF assms(1-3) n1 e_bounds(1,2) refl rd]
      read_from_partition_in_range(1) [OF assms(1-3) n2 e_bounds(1,2) refl rd]
    by simp
  obtain st2 d2 where wr: "WriteDisk P d (MediaId (bio_Media gpart))
      (partition_start gpart + word_of_int e) num_bytes buf = (st2, d2)"
    by (metis surj_pair)
  show "write_to_partition P partition_name off num_bytes buf d =
        write_to_partition P partition_name off' num_bytes buf d"
    using write_to_partition_in_range [OF assms(1-3) n1 e_bounds(1,2) wr]
      write_to_partition_in_range [OF assms(1-3) n2 e_bounds(1,2) wr]
    by simp
qed

section \<open>Partition I/O: the claims\<close>

text \<open>
  What every operation that resolves a name does when the locator misses: the two I/O
  functions report that there is no such partition, the identifier formatter reports
  an I/O error. Nothing is touched.
\<close>

lemma locator_miss:
  assumes "stra_to_str P partition_name = Some label"
    and "gpt_get_partition_by_label P d label = (efi_ret, gpart)"
    and "EFI_ERROR efi_ret"
  shows "read_from_partition P partition_name off num_bytes buf out_num_read d =
           (AVB_IO_RESULT_ERROR_NO_SUCH_PARTITION, buf, out_num_read, d)"
    and "write_to_partition P partition_name off num_bytes buf d =
           (AVB_IO_RESULT_ERROR_NO_SUCH_PARTITION, d)"
    and "get_unique_guid_for_partition P partition_name guid_buf guid_buf_size d =
           (AVB_IO_RESULT_ERROR_IO, guid_buf)"
  using assms
  by (simp_all add: read_from_partition_def write_to_partition_def
        get_unique_guid_for_partition_def)

text \<open>
  Claim C1 (offset normalization keeps every request inside the partition). The code
  normalizes and checks a negative offset as the claim says (lemmas
  \<open>negative_offset_counts_from_end\<close> and \<open>negative_offset_out_of_range\<close>), but an offset
  that is not negative is never compared with the size of the partition: the
  subtraction \<open>partition_size - offset_from_partition\<close> of the boundary test wraps
  around, the test passes, and the request reaches the transport. On the recording
  device, whose partition \<open>boot\<close> has 2048 bytes starting at device byte 1048576, a read
  of 16 bytes at offset 4096 is not refused: the transport is asked for the 16 bytes at
  device byte 1052672, past the end of the partition, and the call returns OK with a
  byte count of 16.
\<close>

theorem read_from_partition_offset_past_end:
  "uint (partition_size boot_gpart) = 2048 \<and>
   normalized_offset (uint (partition_size boot_gpart)) (sint (4096 :: int64_t)) = 4096 \<and>
   read_from_partition recording_platform ''boot'' 4096 16 [] 0 [] =
     (AVB_IO_RESULT_OK, replicate 16 0, 16, [Read_call 1 1052672 16])"
  by (simp add: read_from_partition_def recording_simps EFI_ERROR_simps boot_gpart_simps
        normalized_offset_def word_sless_alt)

text \<open>
  Claim C3 (a write that passes the end of the partition is refused before any
  transport write). For an offset inside the partition the code does refuse it (lemma
  \<open>write_to_partition_in_range\<close>). For an offset past the end the boundary test wraps
  around as in C1: on the recording device a write of 16 bytes at offset 4096 of the
  2048-byte partition returns OK, and the device has received the 16 bytes at device
  byte 1052672, outside the partition.
\<close>

theorem write_to_partition_offset_past_end:
  "uint (partition_size boot_gpart) <
     normalized_offset (uint (partition_size boot_gpart)) (sint (4096 :: int64_t)) +
     uint (16 :: size_t) \<and>
   write_to_partition recording_platform ''boot'' 4096 16 (replicate 16 0xAB) [] =
     (AVB_IO_RESULT_OK, [Write_call 1 1052672 16 (replicate 16 0xAB)])"
  by (simp add: write_to_partition_def recording_simps EFI_ERROR_simps boot_gpart_simps
        normalized_offset_def word_sless_alt)




text \<open>
  Claim C8 (a failing transport read gives IOError and a byte count of zero). For a
  resolved partition and an offset that passes the negative-offset check, let \<open>eff\<close>
  be the offset and \<open>cnt\<close> the clamped length the code computes. When the transport
  answers the request for \<open>cnt\<close> bytes at \<open>eff\<close> with an error status, the call returns
  \<open>AVB_IO_RESULT_ERROR_IO\<close> and the caller's byte-count cell holds 0, whatever
  \<open>cnt\<close> was and whatever the cell held before.
\<close>

theorem read_from_partition_transport_failure:
  assumes "stra_to_str P partition_name = Some label"
    and "gpt_get_partition_by_label P d label = (efi_ret, gpart)"
    and "\<not> EFI_ERROR efi_ret"
    and "\<not> (off <s 0 \<and> partition_size gpart < - off)"
    and "eff = (if off <s 0 then partition_size gpart - (- off) else off)"
    and "cnt = (if partition_size gpart - eff < num_bytes
                then partition_size gpart - eff else num_bytes)"
    and "ReadDisk P d (MediaId (bio_Media gpart)) (partition_start gpart + eff) cnt buf =
           (st, buf', d')"
    and "EFI_ERROR st"
  shows "read_from_partition P partition_name off num_bytes buf out_num_read d =
           (AVB_IO_RESULT_ERROR_IO, buf', 0, d')"
  using read_from_partition_resolved [OF assms(1-7)] assms(8) by simp

theorem read_from_partition_transport_failure_witness:
  "read_from_partition failing_platform ''boot'' (- 8) 16 [1, 2] 7 [] =
     (AVB_IO_RESULT_ERROR_IO, [1, 2], 0, [Read_call 1 1050616 8])"
proof -
  have neg: "(- 8 :: int64_t) <s 0"
    by (simp add: word_sless_alt)
  have h4: "\<not> ((- 8 :: int64_t) <s 0 \<and> partition_size boot_gpart < - (- 8))"
    by (simp add: boot_gpart_simps)
  have h5: "(2040 :: uint64_t) =
              (if - 8 <s (0 :: int64_t) then partition_size boot_gpart - (- (- 8)) else - 8)"
    by (simp add: boot_gpart_simps neg)
  have h6: "(8 :: size_t) = (if partition_size boot_gpart - 2040 < 16
                            then partition_size boot_gpart - 2040 else 16)"
    by (simp add: boot_gpart_simps)
  have h7: "ReadDisk failing_platform [] (MediaId (bio_Media boot_gpart))
              (partition_start boot_gpart + 2040) 8 [1, 2] =
            (EFI_DEVICE_ERROR, [1, 2], [Read_call 1 1050616 8])"
    by (simp add: failing_simps boot_gpart_simps)
  show ?thesis
    by (rule read_from_partition_transport_failure
          [OF failing_simps(1) failing_simps(2) EFI_ERROR_simps(1) h4 h5 h6 h7
              EFI_ERROR_simps(3)])
qed

text \<open>
  Claim C5 (a locator miss is reported as NoSuchPartition by every operation that
  resolves a name). The two I/O functions do so; \<open>get_unique_guid_for_partition\<close>
  reports the miss as \<open>AVB_IO_RESULT_ERROR_IO\<close> (lemma \<open>locator_miss\<close>). On the
  recording device, which has no partition \<open>misc\<close>:
\<close>

theorem locator_miss_error_kinds:
  "read_from_partition recording_platform ''misc'' 0 16 [] 0 [] =
     (AVB_IO_RESULT_ERROR_NO_SUCH_PARTITION, [], 0, []) \<and>
   write_to_partition recording_platform ''misc'' 0 16 (replicate 16 0) [] =
     (AVB_IO_RESULT_ERROR_NO_SUCH_PARTITION, []) \<and>
   get_unique_guid_for_partition recording_platform ''misc'' (replicate 37 CHR ''x'') 37 [] =
     (AVB_IO_RESULT_ERROR_IO, replicate 37 CHR ''x'')"
  by (simp add: read_from_partition_def write_to_partition_def
        get_unique_guid_for_partition_def recording_simps EFI_ERROR_simps)

section \<open>Key validation: the claims\<close>

lemma memcmp_loop_zero:
  "length xs = length ys \<Longrightarrow> memcmp_loop (zip xs ys) = 0 \<longleftrightarrow> xs = ys"
proof (induction xs arbitrary: ys)
  case Nil
  then show ?case by simp
next
  case (Cons x xs)
  then obtain y ys' where ys: "ys = y # ys'"
    by (cases ys) auto
  have "x \<noteq> y \<Longrightarrow> uint x - uint y \<noteq> 0"
    by (simp add: word_uint_eq_iff)
  with Cons ys show ?case by auto
qed

lemma memcmp_in_bounds:
  "n \<le> length s1 \<Longrightarrow> n \<le> length s2 \<Longrightarrow>
     \<exists>r. memcmp s1 s2 n = Some r \<and> (r = 0 \<longleftrightarrow> take n s1 = take n s2)"
  by (simp add: memcmp_def memcmp_loop_zero)

lemma avb_pk_size_le:
  "length avb_pk < 2 ^ 63 \<Longrightarrow> (n \<le> avb_pk_size avb_pk) = (unat n \<le> length avb_pk)"
  by (simp add: avb_pk_size_def word_le_nat_alt unat_of_nat take_bit_nat_eq_self)

lemma validate_some_key:
  assumes "length avb_pk < 2 ^ 63" and "unat n \<le> length key" and "n \<noteq> 0"
  shows "validate_vbmeta_public_key avb_pk (Some key) n md mdl out =
           Some (AVB_IO_RESULT_OK,
                 map_option (\<lambda>_. unat n \<le> length avb_pk \<and>
                                   take (unat n) key = take (unat n) avb_pk) out)"
proof (cases "unat n \<le> length avb_pk")
  case True
  then obtain r where r: "memcmp avb_pk key (unat n) = Some r"
      "r = 0 \<longleftrightarrow> take (unat n) avb_pk = take (unat n) key"
    using memcmp_in_bounds [OF True assms(2)] by blast
  show ?thesis
    using assms True r
    by (cases out) (auto simp: validate_vbmeta_public_key_def avb_pk_size_le)
next
  case False
  then show ?thesis
    using assms by (cases out) (simp_all add: validate_vbmeta_public_key_def avb_pk_size_le)
qed

lemma validate_no_key:
  "validate_vbmeta_public_key avb_pk None n md mdl out =
     Some (AVB_IO_RESULT_ERROR_IO, map_option (\<lambda>_. False) out)"
  "validate_vbmeta_public_key avb_pk (Some key) 0 md mdl out =
     Some (AVB_IO_RESULT_ERROR_IO, map_option (\<lambda>_. False) out)"
  by (cases out; simp add: validate_vbmeta_public_key_def)+

lemma validate_ignores_metadata:
  "validate_vbmeta_public_key avb_pk kd n md mdl out =
   validate_vbmeta_public_key avb_pk kd n md' mdl' out"
  by (simp add: validate_vbmeta_public_key_def)

text \<open>
  Claim C2 (the decision rule of \<open>validate_vbmeta_public_key\<close>). The embedded key is
  an object of the image (shorter than \<open>2 ^ 63\<close> bytes), and a presented key pointer
  refers to at least \<open>public_key_length\<close> bytes. Then:
  \<^item> the call returns \<open>AVB_IO_RESULT_ERROR_IO\<close> exactly when the pointer is NULL or
    the length is zero, and \<open>AVB_IO_RESULT_OK\<close> otherwise;
  \<^item> on OK, the trust cell holds true if and only if the presented length does not
    exceed the length of the embedded key and the presented bytes equal the first
    \<open>public_key_length\<close> bytes of the embedded key;
  \<^item> the two metadata arguments have no influence on the result;
  \<^item> presenting the embedded key itself gives true, and changing one byte of it
    inside the compared prefix gives false.
\<close>

theorem validate_vbmeta_public_key_decision:
  assumes "length avb_pk < 2 ^ 63"
    and "public_key_data = None \<or>
         public_key_data = Some key \<and> unat public_key_length \<le> length key"
  shows
    "validate_vbmeta_public_key avb_pk public_key_data public_key_length md mdl out =
       Some (if public_key_data = None \<or> public_key_length = 0
             then (AVB_IO_RESULT_ERROR_IO, map_option (\<lambda>_. False) out)
             else (AVB_IO_RESULT_OK,
                   map_option (\<lambda>_. unat public_key_length \<le> length avb_pk \<and>
                                     take (unat public_key_length) key =
                                     take (unat public_key_length) avb_pk) out))
     \<and> validate_vbmeta_public_key avb_pk public_key_data public_key_length md' mdl' out =
       validate_vbmeta_public_key avb_pk public_key_data public_key_length md mdl out
     \<and> (avb_pk \<noteq> [] \<longrightarrow>
          validate_vbmeta_public_key avb_pk (Some avb_pk) (avb_pk_size avb_pk) md mdl
              (Some prior) =
            Some (AVB_IO_RESULT_OK, Some True))
     \<and> (i < unat public_key_length \<and> unat public_key_length \<le> length avb_pk \<and>
          b \<noteq> avb_pk ! i \<longrightarrow>
          validate_vbmeta_public_key avb_pk (Some (avb_pk[i := b])) public_key_length md mdl
              (Some prior) =
            Some (AVB_IO_RESULT_OK, Some False))"
proof (intro conjI impI)
  show "validate_vbmeta_public_key avb_pk public_key_data public_key_length md mdl out =
       Some (if public_key_data = None \<or> public_key_length = 0
             then (AVB_IO_RESULT_ERROR_IO, map_option (\<lambda>_. False) out)
             else (AVB_IO_RESULT_OK,
                   map_option (\<lambda>_. unat public_key_length \<le> length avb_pk \<and>
                                     take (unat public_key_length) key =
                                     take (unat public_key_length) avb_pk) out))"
    using assms(2) validate_some_key [OF assms(1), of public_key_length key md mdl out]
    by (auto simp: validate_no_key)
  show "validate_vbmeta_public_key avb_pk public_key_data public_key_length md' mdl' out =
       validate_vbmeta_public_key avb_pk public_key_data public_key_length md mdl out"
    by (rule validate_ignores_metadata)
next
  assume ne: "avb_pk \<noteq> []"
  have u: "unat (avb_pk_size avb_pk) = length avb_pk"
    using assms(1) by (simp add: avb_pk_size_def unat_of_nat take_bit_nat_eq_self)
  with ne have "avb_pk_size avb_pk \<noteq> 0"
    by (metis length_0_conv unat_0)
  then show "validate_vbmeta_public_key avb_pk (Some avb_pk) (avb_pk_size avb_pk) md mdl
               (Some prior) =
             Some (AVB_IO_RESULT_OK, Some True)"
    using validate_some_key [OF assms(1), of "avb_pk_size avb_pk" avb_pk md mdl "Some prior"] u
    by simp
next
  assume h: "i < unat public_key_length \<and> unat public_key_length \<le> length avb_pk \<and>
             b \<noteq> avb_pk ! i"
  then have nz: "public_key_length \<noteq> 0"
    by (metis not_less0 unat_0)
  have "take (unat public_key_length) (avb_pk[i := b]) ! i \<noteq>
        take (unat public_key_length) avb_pk ! i"
    using h by simp
  then have "take (unat public_key_length) (avb_pk[i := b]) \<noteq>
             take (unat public_key_length) avb_pk"
    by metis
  then show "validate_vbmeta_public_key avb_pk (Some (avb_pk[i := b])) public_key_length md mdl
               (Some prior) =
             Some (AVB_IO_RESULT_OK, Some False)"
    using validate_some_key
            [OF assms(1), of public_key_length "avb_pk[i := b]" md mdl "Some prior"] h nz
    by simp
qed

theorem validate_vbmeta_public_key_decision_witness:
  "validate_vbmeta_public_key [0xDE, 0xAD, 0xBE, 0xEF] (Some [0xDE, 0xAD, 0xBE, 0xEF]) 4
       (Some [1]) 1 (Some False) = Some (AVB_IO_RESULT_OK, Some True) \<and>
   validate_vbmeta_public_key [0xDE, 0xAD, 0xBE, 0xEF] (Some [0xDE, 0xAD, 0xBF, 0xEF]) 4
       None 0 (Some True) = Some (AVB_IO_RESULT_OK, Some False) \<and>
   validate_vbmeta_public_key [0xDE, 0xAD, 0xBE, 0xEF] (Some [0xDE, 0xAD]) 2
       None 0 (Some False) = Some (AVB_IO_RESULT_OK, Some True) \<and>
   validate_vbmeta_public_key [0xDE, 0xAD, 0xBE, 0xEF] (Some [0xDE, 0xAD, 0xBE, 0xEF, 0]) 5
       None 0 (Some True) = Some (AVB_IO_RESULT_OK, Some False) \<and>
   validate_vbmeta_public_key [0xDE, 0xAD, 0xBE, 0xEF] (Some [0xDE, 0xAD, 0xBE, 0xEF]) 0
       None 0 (Some True) = Some (AVB_IO_RESULT_ERROR_IO, Some False) \<and>
   validate_vbmeta_public_key [0xDE, 0xAD, 0xBE, 0xEF] None 4
       None 0 (Some True) = Some (AVB_IO_RESULT_ERROR_IO, Some False)"
proof -
  let ?pk = "[0xDE, 0xAD, 0xBE, 0xEF] :: uint8_t list"
  have pk: "length ?pk < 2 ^ 63"
    by simp
  note d = validate_vbmeta_public_key_decision [OF pk, THEN conjunct1]
  have "validate_vbmeta_public_key ?pk (Some ?pk) 4 (Some [1]) 1 (Some False) =
          Some (AVB_IO_RESULT_OK, Some True)"
    using d [of "Some ?pk" ?pk 4 "Some [1]" 1 "Some False"] by simp
  moreover have "validate_vbmeta_public_key ?pk (Some [0xDE, 0xAD, 0xBF, 0xEF]) 4
          None 0 (Some True) = Some (AVB_IO_RESULT_OK, Some False)"
    using d [of "Some [0xDE, 0xAD, 0xBF, 0xEF]" "[0xDE, 0xAD, 0xBF, 0xEF]" 4 None 0 "Some True"]
    by simp
  moreover have "validate_vbmeta_public_key ?pk (Some [0xDE, 0xAD]) 2
          None 0 (Some False) = Some (AVB_IO_RESULT_OK, Some True)"
    using d [of "Some [0xDE, 0xAD]" "[0xDE, 0xAD]" 2 None 0 "Some False"] by simp
  moreover have "validate_vbmeta_public_key ?pk (Some [0xDE, 0xAD, 0xBE, 0xEF, 0]) 5
          None 0 (Some True) = Some (AVB_IO_RESULT_OK, Some False)"
    using d [of "Some [0xDE, 0xAD, 0xBE, 0xEF, 0]" "[0xDE, 0xAD, 0xBE, 0xEF, 0]" 5 None 0
               "Some True"]
    by simp
  moreover have "validate_vbmeta_public_key ?pk (Some ?pk) 0
          None 0 (Some True) = Some (AVB_IO_RESULT_ERROR_IO, Some False)"
    using d [of "Some ?pk" ?pk 0 None 0 "Some True"] by simp
  moreover have "validate_vbmeta_public_key ?pk None 4
          None 0 (Some True) = Some (AVB_IO_RESULT_ERROR_IO, Some False)"
    using d [of None "[]" 4 None 0 "Some True"] by simp
  ultimately show ?thesis
    by (intro conjI)
qed

text \<open>
  Claim C10 (the trust cell is reset before any check). With a non-NULL
  \<open>out_key_is_trusted\<close>: what the cell held before the call has no influence on the
  result; on the \<open>AVB_IO_RESULT_ERROR_IO\<close> path (NULL key or zero length) the cell
  holds false; and whenever the call returns, the cell holds true only if the call
  returned OK after the length test and the comparison with the embedded key both
  succeeded, and false otherwise.
\<close>

theorem validate_vbmeta_public_key_resets_output:
  "validate_vbmeta_public_key avb_pk public_key_data public_key_length md mdl (Some prior) =
     validate_vbmeta_public_key avb_pk public_key_data public_key_length md mdl (Some prior')
   \<and> (public_key_data = None \<or> public_key_length = 0 \<longrightarrow>
        validate_vbmeta_public_key avb_pk public_key_data public_key_length md mdl
            (Some prior) =
          Some (AVB_IO_RESULT_ERROR_IO, Some False))
   \<and> (validate_vbmeta_public_key avb_pk public_key_data public_key_length md mdl
            (Some prior) = Some (r, t) \<longrightarrow>
        t = Some (r = AVB_IO_RESULT_OK \<and> public_key_length \<le> avb_pk_size avb_pk \<and>
                  (\<exists>key. public_key_data = Some key \<and>
                         memcmp avb_pk key (unat public_key_length) = Some 0)))"
  by (cases public_key_data)
     (auto simp: validate_vbmeta_public_key_def Let_def split: option.splits if_splits)

theorem validate_vbmeta_public_key_resets_output_witness:
  "validate_vbmeta_public_key [0xDE, 0xAD, 0xBE, 0xEF] None 4 None 0 (Some True) =
     Some (AVB_IO_RESULT_ERROR_IO, Some False) \<and>
   validate_vbmeta_public_key [0xDE, 0xAD, 0xBE, 0xEF] (Some [0xDE, 0xAD, 0xBE, 0xEF]) 4
       None 0 (Some False) = Some (AVB_IO_RESULT_OK, Some True) \<and>
   memcmp [0xDE, 0xAD, 0xBE, 0xEF] [0xDE, 0xAD, 0xBE, 0xEF] 4 = Some 0"
proof -
  let ?pk = "[0xDE, 0xAD, 0xBE, 0xEF] :: uint8_t list"
  note c = validate_vbmeta_public_key_resets_output [THEN conjunct2]
  have io: "validate_vbmeta_public_key ?pk None 4 None 0 (Some True) =
          Some (AVB_IO_RESULT_ERROR_IO, Some False)"
    using c [THEN conjunct1, of None 4 ?pk None 0 True] by simp
  have ok: "validate_vbmeta_public_key ?pk (Some ?pk) 4 None 0 (Some False) =
          Some (AVB_IO_RESULT_OK, Some True)"
    by (simp add: validate_vbmeta_public_key_def avb_pk_size_def memcmp_def)
  have "memcmp ?pk ?pk 4 = Some 0"
    using c [THEN conjunct2, THEN mp, OF ok] by simp
  with io ok show ?thesis
    by (intro conjI)
qed

section \<open>Rollback indexes: the claim\<close>

lemma write_history_keeps:
  "write_history ws d = (replicate (length ws) AVB_IO_RESULT_OK, d)"
  by (induction ws arbitrary: d) (auto simp: write_rollback_index_def)

text \<open>
  Claim C9 (the rollback store is a stub). A write succeeds for every slot and value
  and hands the state back as it was; so does every history of writes; and after any
  history a read of any slot succeeds, with 0 in the caller's cell (whatever the cell
  held) and the state still as it was at the start. A read with a NULL cell succeeds
  too.
\<close>

theorem rollback_index_stub:
  "write_rollback_index slot index d = (AVB_IO_RESULT_OK, d) \<and>
   write_history ws d = (replicate (length ws) AVB_IO_RESULT_OK, d) \<and>
   read_rollback_index slot' (Some prior) (snd (write_history ws d)) =
     (AVB_IO_RESULT_OK, Some 0, d) \<and>
   read_rollback_index slot' None (snd (write_history ws d)) =
     (AVB_IO_RESULT_OK, None, d)"
  by (simp add: write_history_keeps write_rollback_index_def read_rollback_index_def)

section \<open>The unique identifier: the claims\<close>

lemma hex_digits_table: "list_all (\<lambda>n. hex_digits ! n = hex_digit n) [0..<16]"
  by code_simp

lemma hex_digits_nth: "n < 16 \<Longrightarrow> hex_digits ! n = hex_digit n"
  using hex_digits_table by (simp add: list_all_iff)

lemma unat_high_nibble: "unat (drop_bit 4 (v :: uint8_t)) = unat v div 16"
  by (simp add: unat_drop_bit_eq drop_bit_eq_div unat_div_distrib)

lemma unat_low_nibble: "unat ((v :: uint8_t) AND 0x0f) = unat v mod 16"
proof -
  have "v AND 0x0f = take_bit 4 v"
    by (simp add: take_bit_eq_mask mask_eq_exp_minus_1)
  then show ?thesis
    by (simp add: unsigned_take_bit_eq take_bit_eq_mod unat_mod_distrib)
qed

text \<open>The table lookup of \<open>set_hex\<close> stores the two hexadecimal digits of the byte.\<close>

lemma set_hex_eq:
  "set_hex buf pos v =
     buf[pos := hex_digit (unat v div 16), pos + 1 := hex_digit (unat v mod 16)]"
proof -
  have "unat v < 256"
    using unsigned_less [of v] by simp
  then have "unat v div 16 < 16"
    by simp
  then show ?thesis
    by (simp add: set_hex_def unat_high_nibble unat_low_nibble hex_digits_nth)
qed

lemma upt_37: "[0..<37] = [0, 1, 2, 3, 4, 5, 6, 7, 8, 9, 10, 11, 12, 13, 14, 15, 16, 17, 18, 19, 20, 21, 22, 23, 24, 25, 26, 27, 28, 29, 30, 31, 32, 33, 34, 35, 36]"
  by (simp add: upt_rec)

lemma take_as_map_nth: "n \<le> length xs \<Longrightarrow> take n xs = map ((!) xs) [0..<n]"
  by (simp add: list_eq_iff_nth_eq)

lemma length_canonical_guid_string: "length (canonical_guid_string u) = 36"
  by (simp add: canonical_guid_string_def hex_group_def hex_byte_def)

text \<open>
  Claim C6 (the format of the identifier). For a resolved partition with a 16-byte
  identifier and a buffer of stated size at least 37 (and really that long), the call
  returns OK and the buffer holds the canonical string of the identifier (36
  characters: lowercase hexadecimal digits of the bytes 3,2,1,0 - 5,4 - 7,6 - 8,9 -
  10..15, hyphens between the groups), then a NUL at index 36, then what it held
  before from index 37 on. In particular the identifier
  33 22 11 00 55 44 77 66 88 99 AA BB CC DD EE FF of the partition \<open>boot\<close> of the
  recording device is written as 00112233-4455-6677-8899-aabbccddeeff.
\<close>

theorem get_unique_guid_for_partition_format:
  assumes "stra_to_str P name = Some label"
    and "gpt_get_partition_by_label P d label = (efi_ret, gpart)"
    and "\<not> EFI_ERROR efi_ret"
    and "length (unique (part gpart)) = 16"
    and "37 \<le> guid_buf_size"
    and "unat guid_buf_size \<le> length guid_buf"
  shows "get_unique_guid_for_partition P name guid_buf guid_buf_size d =
           (AVB_IO_RESULT_OK,
            canonical_guid_string (unique (part gpart)) @ CHR 0x00 # drop 37 guid_buf) \<and>
         length (canonical_guid_string (unique (part gpart))) = 36 \<and>
         snd (get_unique_guid_for_partition P name guid_buf guid_buf_size d) ! 36 = CHR 0x00 \<and>
         canonical_guid_string [0x33, 0x22, 0x11, 0x00, 0x55, 0x44, 0x77, 0x66,
                                0x88, 0x99, 0xAA, 0xBB, 0xCC, 0xDD, 0xEE, 0xFF] =
           ''00112233-4455-6677-8899-aabbccddeeff'' \<and>
         get_unique_guid_for_partition recording_platform ''boot''
             (replicate 40 CHR ''x'') 40 [] =
           (AVB_IO_RESULT_OK, ''00112233-4455-6677-8899-aabbccddeeff'' @ CHR 0x00 # ''xxx'')"
proof -
  let ?u = "unique (part gpart)"
  have nl: "\<not> guid_buf_size < 37"
    using assms(5) by simp
  define r where "r = snd (get_unique_guid_for_partition P name guid_buf guid_buf_size d)"
  have r: "get_unique_guid_for_partition P name guid_buf guid_buf_size d =
             (AVB_IO_RESULT_OK, r)"
    unfolding r_def using assms(1-3) nl
    by (simp add: get_unique_guid_for_partition_def Let_def)
  have len37: "37 \<le> length guid_buf"
    using assms(5,6) by (simp add: word_le_nat_alt)
  then have ne: "guid_buf \<noteq> []"
    by auto
  have lenr: "length r = length guid_buf"
    unfolding r_def using assms(1-3) nl
    by (simp add: get_unique_guid_for_partition_def Let_def set_hex_eq)
  have dropr: "drop 37 r = drop 37 guid_buf"
    unfolding r_def using assms(1-3) nl
    by (simp add: get_unique_guid_for_partition_def Let_def set_hex_eq)
  have "map ((!) r) [0..<37] = canonical_guid_string ?u @ [CHR 0x00]"
    unfolding r_def using assms(1-3) nl len37 ne
    by (simp add: get_unique_guid_for_partition_def Let_def set_hex_eq upt_37
          canonical_guid_string_def hex_group_def hex_byte_def)
  then have "take 37 r = canonical_guid_string ?u @ [CHR 0x00]"
    using take_as_map_nth [of 37 r] len37 lenr by simp
  then have req: "r = canonical_guid_string ?u @ CHR 0x00 # drop 37 guid_buf"
    using append_take_drop_id [of 37 r] dropr by simp
  have nul: "r ! 36 = CHR 0x00"
    by (subst req) (simp add: nth_append length_canonical_guid_string)
  have example: "canonical_guid_string [0x33, 0x22, 0x11, 0x00, 0x55, 0x44, 0x77, 0x66,
                                       0x88, 0x99, 0xAA, 0xBB, 0xCC, 0xDD, 0xEE, 0xFF] =
                   ''00112233-4455-6677-8899-aabbccddeeff''"
    by code_simp
  have run: "get_unique_guid_for_partition recording_platform ''boot''
               (replicate 40 CHR ''x'') 40 [] =
             (AVB_IO_RESULT_OK, ''00112233-4455-6677-8899-aabbccddeeff'' @ CHR 0x00 # ''xxx'')"
    by code_simp
  show ?thesis
    using r req nul example run by (simp add: length_canonical_guid_string r_def)
qed

theorem get_unique_guid_for_partition_format_witness:
  "get_unique_guid_for_partition recording_platform ''boot'' (replicate 37 CHR ''?'') 37 [] =
     (AVB_IO_RESULT_OK, ''00112233-4455-6677-8899-aabbccddeeff'' @ [CHR 0x00])"
proof -
  have h4: "length (unique (part boot_gpart)) = 16"
    by (simp add: boot_gpart_def)
  have h6: "unat (37 :: size_t) \<le> length (replicate 37 CHR ''?'')"
    by simp
  have u: "unique (part boot_gpart) =
             [0x33, 0x22, 0x11, 0x00, 0x55, 0x44, 0x77, 0x66,
              0x88, 0x99, 0xAA, 0xBB, 0xCC, 0xDD, 0xEE, 0xFF]"
    by (simp add: boot_gpart_def)
  note t = get_unique_guid_for_partition_format
             [OF recording_simps(1) recording_simps(2) EFI_ERROR_simps(1) h4 order_refl h6]
  show ?thesis
    using t [THEN conjunct1] t [THEN conjunct2, THEN conjunct2, THEN conjunct2, THEN conjunct1]
    by (simp add: u)
qed

text \<open>
  Claim C7 (a buffer of stated size below 37 is refused). For a resolved partition
  and \<open>guid_buf_size < 37\<close> the call returns \<open>AVB_IO_RESULT_ERROR_IO\<close> and the buffer
  is what it was: nothing is stored.
\<close>

theorem get_unique_guid_for_partition_small_buffer:
  assumes "stra_to_str P name = Some label"
    and "gpt_get_partition_by_label P d label = (efi_ret, gpart)"
    and "\<not> EFI_ERROR efi_ret"
    and "guid_buf_size < 37"
  shows "get_unique_guid_for_partition P name guid_buf guid_buf_size d =
           (AVB_IO_RESULT_ERROR_IO, guid_buf)"
  using assms by (simp add: get_unique_guid_for_partition_def)

theorem get_unique_guid_for_partition_small_buffer_witness:
  "get_unique_guid_for_partition recording_platform ''boot'' (replicate 36 CHR ''?'') 36 [] =
     (AVB_IO_RESULT_ERROR_IO, replicate 36 CHR ''?'')"
proof -
  have h4: "(36 :: size_t) < 37"
    by simp
  show ?thesis
    by (rule get_unique_guid_for_partition_small_buffer
          [OF recording_simps(1) recording_simps(2) EFI_ERROR_simps(1) h4])
qed

end
